theory Spec2Isabelle
  imports Main "HOL-Library.AList" "HOL-Library.Char_ord" "HOL-Library.List_Lexorder"
begin

section \<open>Data model\<close>

text \<open>
  The replicator (\<^verbatim>\<open>src/es_replicator.py\<close>, class \<^verbatim>\<open>ESFullReplicator\<close>) talks to two
  Elasticsearch clusters through the client library. Documents are JSON objects; a Python
  \<^verbatim>\<open>dict\<close> is an association list with distinct keys, in insertion order. Strings are
  lists of characters ordered lexicographically (\<open>List_Lexorder\<close> over \<open>Char_ord\<close>), which is
  the order Python uses to compare \<^verbatim>\<open>str\<close> keys. JSON values are compared
  structurally; numbers are integers (Python's \<^verbatim>\<open>True == 1\<close> and floating-point values
  are outside the model).
\<close>

datatype json =
    JNull
  | JBool bool
  | JNum int
  | JStr string
  | JList "json list"
  | JObj "(string \<times> json) list"

type_synonym pydict = "(string \<times> json) list"

text \<open>
  Every exception the model raises is a subclass of Python's \<^verbatim>\<open>Exception\<close>; the handlers of
  the source distinguish only \<^verbatim>\<open>es_exceptions.NotFoundError\<close> from the rest.
\<close>

datatype error =
    NotFoundError
  | NameError string
  | KeyError string
  | UnicodeEncodeError
  | ValueError
  | TypeError
  | TransportError

text \<open>A search hit or scanned document: \<^verbatim>\<open>{'_id': ..., '_source': {...}}\<close>. The
  \<^verbatim>\<open>_source\<close> key may be missing (then \<^verbatim>\<open>doc['_source']\<close> raises \<^verbatim>\<open>KeyError\<close>).\<close>

record doc =
  doc_id :: string
  doc_source :: "pydict option"

text \<open>The attributes set in \<^verbatim>\<open>__init__\<close> (lines 62--75).\<close>

definition scroll_time :: string where
  "scroll_time = ''60m''"

definition batch_size :: nat where
  "batch_size = 10000"

definition checksum_field :: string where
  "checksum_field = ''_doc_hash''"

section \<open>Hasher\<close>

text \<open>
  \<^verbatim>\<open>_generate_doc_hash\<close> (lines 560--563):
  \<^verbatim>\<open>doc_str = str(sorted(doc_source.items())).encode('utf-8')\<close>,
  \<^verbatim>\<open>return hashlib.sha256(doc_str).hexdigest()\<close>.
  The library functions are parameters of the model: \<open>py_str\<close> renders a list of
  pairs, \<open>encode_utf8\<close> fails with \<^verbatim>\<open>UnicodeEncodeError\<close> on a string that holds a lone
  surrogate, \<open>sha256_hexdigest\<close> is the digest (\<open>fromisoformat\<close>, of \<^verbatim>\<open>datetime\<close>, is
  used by the checkpoint below). \<^verbatim>\<open>sorted\<close> compares the
  \<^verbatim>\<open>(key, value)\<close> tuples; the keys of a dict are distinct strings, so the keys alone
  decide every comparison and the values are never compared.
\<close>

record pylib =
  py_str :: "pydict \<Rightarrow> string"
  encode_utf8 :: "string \<Rightarrow> error + string"
  sha256_hexdigest :: "string \<Rightarrow> string"
  fromisoformat :: "json \<Rightarrow> error + int"

definition sorted_items :: "pydict \<Rightarrow> pydict" where
  "sorted_items items = sort_key fst items"

definition generate_doc_hash :: "pylib \<Rightarrow> pydict \<Rightarrow> error + string" where
  "generate_doc_hash lib doc_src =
     (case encode_utf8 lib (py_str lib (sorted_items doc_src)) of
        Inl e \<Rightarrow> Inl e
      | Inr doc_str \<Rightarrow> Inr (sha256_hexdigest lib doc_str))"

section \<open>Store client\<close>

text \<open>
  The operations of the Elasticsearch client the replicator calls, one record per
  cluster. Each field gives the outcome of the call: \<open>Inl e\<close> when the client raises
  \<open>e\<close>, \<open>Inr v\<close> when it returns \<open>v\<close>. \<open>create_target\<close> is the outcome of
  \<^verbatim>\<open>_create_target_index\<close> (lines 411--467) as a whole, which cleans the source settings,
  creates the index and re-raises every error. \<open>scan\<close> gives the documents the cursor
  yields and the error it ends with, if any. The outcome of a call is a function of its
  arguments: the answers of a cluster do not change during one run, and the bulk
  requests, which the source hands to a thread pool, are answered independently of each
  other. A hit always carries its \<^verbatim>\<open>_id\<close>.
\<close>

record sample_query =
  query_size :: int
  query_random_score :: bool
  query_source_fields :: "string list"

record scan_request =
  scan_index :: string
  scan_match_all :: bool
  scan_size :: nat
  scan_scroll :: string
  preserve_order :: bool
  scan_request_timeout :: nat

record action =
  op_type :: string
  action_index :: string
  action_id :: string
  action_source :: pydict

record bulk_request =
  bulk_actions :: "action list"
  stats_only :: bool
  raise_on_error :: bool
  chunk_size :: nat
  bulk_request_timeout :: nat
  bulk_max_retries :: nat
  bulk_retry_on_timeout :: bool

record store =
  indices_exists :: "string \<Rightarrow> error + bool"
  indices_get :: "string \<Rightarrow> error + unit"
  indices_get_settings :: "string \<Rightarrow> error + json"
  indices_get_mapping :: "string \<Rightarrow> error + json"
  indices_put_settings :: "string \<Rightarrow> string \<Rightarrow> error + unit"
  create_target :: "string \<Rightarrow> json \<Rightarrow> json \<Rightarrow> error + unit"
  count_docs :: "string \<Rightarrow> error + int"
  search :: "string \<Rightarrow> sample_query \<Rightarrow> error + doc list"
  get_doc :: "string \<Rightarrow> string \<Rightarrow> error + doc"
  scan :: "scan_request \<Rightarrow> doc list \<times> error option"
  bulk :: "bulk_request \<Rightarrow> error + (int \<times> int)"

section \<open>Drift verifier\<close>

text \<open>\<^verbatim>\<open>verify_replication\<close> (lines 469--558). The statistics dictionary:\<close>

record verify_stats =
  checked :: int
  mismatches :: int
  missing_indices :: int
  count_mismatches :: int

definition verify_stats0 :: verify_stats where
  "verify_stats0 = \<lparr>checked = 0, mismatches = 0, missing_indices = 0, count_mismatches = 0\<rparr>"

text \<open>\<^verbatim>\<open>d.get(key)\<close>: the value, or \<^verbatim>\<open>None\<close> when the key is absent.\<close>

definition dict_get :: "pydict \<Rightarrow> string \<Rightarrow> json" where
  "dict_get d k = (case map_of d k of None \<Rightarrow> JNull | Some v \<Rightarrow> v)"

text \<open>
  The dict comprehension
  \<^verbatim>\<open>{hit['_id']: hit['_source'].get(self.checksum_field) for hit in hits}\<close>:
  a later hit with the same id overwrites the value in place; a hit without
  \<^verbatim>\<open>_source\<close> raises \<^verbatim>\<open>KeyError\<close>.
\<close>

fun sample_dict :: "pydict \<Rightarrow> doc list \<Rightarrow> error + pydict" where
  "sample_dict acc [] = Inr acc"
| "sample_dict acc (hit # hits) =
     (case doc_source hit of
        None \<Rightarrow> Inl (KeyError ''_source'')
      | Some src \<Rightarrow> sample_dict (AList.update (doc_id hit) (dict_get src checksum_field) acc) hits)"

text \<open>The comparison loop (lines 529--536): one step for each key of
  \<^verbatim>\<open>source_sample\<close>, in the dict's order. \<^verbatim>\<open>stats['checked'] += 1\<close> stands after the
  \<^verbatim>\<open>if\<close>/\<^verbatim>\<open>elif\<close>, at the level of the loop body.\<close>

definition compare_doc :: "pydict \<Rightarrow> pydict \<Rightarrow> verify_stats \<Rightarrow> string \<Rightarrow> verify_stats" where
  "compare_doc source_sample target_sample stats d =
     (let stats1 =
        (if map_of target_sample d = None
           then stats\<lparr>mismatches := mismatches stats + 1\<rparr>
         else if map_of source_sample d \<noteq> map_of target_sample d
           then stats\<lparr>mismatches := mismatches stats + 1\<rparr>
         else stats)
      in stats1\<lparr>checked := checked stats1 + 1\<rparr>)"

text \<open>The condition under which the comparison loop counts the id \<open>d\<close> of the source's
  sample as a mismatch: absent from the target's sample, or present with another value.\<close>

definition sample_mismatch :: "pydict \<Rightarrow> pydict \<Rightarrow> string \<Rightarrow> bool" where
  "sample_mismatch source_sample target_sample d =
     (map_of target_sample d = None \<or> map_of source_sample d \<noteq> map_of target_sample d)"

definition compare_samples :: "pydict \<Rightarrow> pydict \<Rightarrow> verify_stats \<Rightarrow> verify_stats" where
  "compare_samples source_sample target_sample stats =
     foldl (compare_doc source_sample target_sample) stats (map fst source_sample)"

definition sample_request :: "int \<Rightarrow> sample_query" where
  "sample_request sample_size =
     \<lparr>query_size = sample_size, query_random_score = True,
      query_source_fields = [checksum_field]\<rparr>"

text \<open>Lines 517--545: the two searches and the comparison, inside their own
  \<^verbatim>\<open>try\<close>; any exception is logged and the loop goes on to the next index.\<close>

definition verify_sample :: "store \<Rightarrow> store \<Rightarrow> string \<Rightarrow> int \<Rightarrow> verify_stats \<Rightarrow> verify_stats" where
  "verify_sample source_es target_es index sample_size stats =
     (case search source_es index (sample_request sample_size) of
        Inl e \<Rightarrow> stats
      | Inr source_hits \<Rightarrow>
          (case sample_dict [] source_hits of
             Inl e \<Rightarrow> stats
           | Inr source_sample \<Rightarrow>
               (case search target_es index (sample_request sample_size) of
                  Inl e \<Rightarrow> stats
                | Inr target_hits \<Rightarrow>
                    (case sample_dict [] target_hits of
                       Inl e \<Rightarrow> stats
                     | Inr target_sample \<Rightarrow>
                         compare_samples source_sample target_sample stats))))"

text \<open>Lines 491--498: the count comparison.\<close>

definition count_check :: "int \<Rightarrow> int \<Rightarrow> verify_stats \<Rightarrow> verify_stats" where
  "count_check source_count target_count stats =
     (if source_count \<noteq> target_count
        then (let diff = \<bar>source_count - target_count\<bar>
              in stats\<lparr>mismatches := mismatches stats + diff,
                       count_mismatches := count_mismatches stats + diff\<rparr>)
      else stats)"

text \<open>Lines 476--483: an index missing on either side (\<^verbatim>\<open>NotFoundError\<close> from
  \<^verbatim>\<open>indices.get\<close>) is counted; any other exception reaches the outer handler (line 547),
  which only logs.\<close>

definition on_get_error :: "error \<Rightarrow> verify_stats \<Rightarrow> verify_stats" where
  "on_get_error e stats =
     (if e = NotFoundError
        then stats\<lparr>mismatches := mismatches stats + 1,
                   missing_indices := missing_indices stats + 1\<rparr>
      else stats)"

definition verify_index :: "store \<Rightarrow> store \<Rightarrow> verify_stats \<Rightarrow> string \<Rightarrow> verify_stats" where
  "verify_index source_es target_es stats index =
     (case indices_get target_es index of
        Inl e \<Rightarrow> on_get_error e stats
      | Inr _ \<Rightarrow>
          (case indices_get source_es index of
             Inl e \<Rightarrow> on_get_error e stats
           | Inr _ \<Rightarrow>
               (case count_docs source_es index of
                  Inl e \<Rightarrow> stats
                | Inr source_count \<Rightarrow>
                    (case count_docs target_es index of
                       Inl e \<Rightarrow> stats
                     | Inr target_count \<Rightarrow>
                         (let stats1 = count_check source_count target_count stats;
                              sample_size = min 1000 source_count
                          in if sample_size = 0 then stats1
                             else verify_sample source_es target_es index sample_size stats1)))))"

definition verify_replication :: "store \<Rightarrow> store \<Rightarrow> string list \<Rightarrow> verify_stats" where
  "verify_replication source_es target_es indices =
     foldl (verify_index source_es target_es) verify_stats0 indices"

section \<open>Sync checkpoint\<close>

text \<open>
  \<^verbatim>\<open>_init_last_sync_time\<close> (lines 102--111), called once from \<^verbatim>\<open>__init__\<close> after
  \<^verbatim>\<open>self.last_sync_time = None\<close> (line 74). A point in time is a number of microseconds;
  \<open>now\<close> is what \<^verbatim>\<open>datetime.now()\<close> returns in the handler. The result is the value of
  \<^verbatim>\<open>self.last_sync_time\<close> afterwards. The body of the \<^verbatim>\<open>if\<close> has no \<^verbatim>\<open>else\<close>.
\<close>

definition one_day :: int where
  "one_day = 86400 * 1000000"

definition meta_index :: string where
  "meta_index = ''.replication_meta''"

definition init_last_sync_time :: "pylib \<Rightarrow> store \<Rightarrow> int \<Rightarrow> int option" where
  "init_last_sync_time lib target_es now =
     (case indices_exists target_es meta_index of
        Inl e \<Rightarrow> Some (now - one_day)
      | Inr present \<Rightarrow>
          if present then
            (case get_doc target_es meta_index ''last_sync'' of
               Inl e \<Rightarrow> Some (now - one_day)
             | Inr response \<Rightarrow>
                 (case doc_source response of
                    None \<Rightarrow> Some (now - one_day)
                  | Some d \<Rightarrow>
                      (case map_of d ''timestamp'' of
                         None \<Rightarrow> Some (now - one_day)
                       | Some ts \<Rightarrow>
                           (case fromisoformat lib ts of
                              Inl e \<Rightarrow> Some (now - one_day)
                            | Inr t \<Rightarrow> Some t))))
          else None)"

section \<open>Loader\<close>

text \<open>The per-collection statistics \<^verbatim>\<open>{'processed': 0, 'updated': 0, 'failed': 0}\<close>.\<close>

record stats =
  processed :: int
  updated :: int
  failed :: int

definition stats0 :: stats where
  "stats0 = \<lparr>processed = 0, updated = 0, failed = 0\<rparr>"

text \<open>
  The body of the \<^verbatim>\<open>try\<close> in \<^verbatim>\<open>process_batch\<close> (lines 333--340) for one document.
  \<^verbatim>\<open>{**doc["_source"], self.checksum_field: doc_hash}\<close> keeps the fields in
  order and sets the checksum field (in place when the document already has one).
\<close>

definition process_doc :: "pylib \<Rightarrow> string \<Rightarrow> doc \<Rightarrow> error + action" where
  "process_doc lib target_index d =
     (case doc_source d of
        None \<Rightarrow> Inl (KeyError ''_source'')
      | Some src \<Rightarrow>
          (case generate_doc_hash lib src of
             Inl e \<Rightarrow> Inl e
           | Inr doc_hash \<Rightarrow>
               Inr \<lparr>op_type = ''index'', action_index = target_index, action_id = doc_id d,
                    action_source = AList.update checksum_field (JStr doc_hash) src\<rparr>))"

text \<open>\<^verbatim>\<open>process_batch\<close> (lines 329--344): a document whose processing raises is
  counted in \<^verbatim>\<open>stats['failed']\<close> (the dict of the enclosing function) and skipped.\<close>

fun process_docs :: "pylib \<Rightarrow> string \<Rightarrow> action list \<Rightarrow> stats \<Rightarrow> doc list \<Rightarrow> action list \<times> stats" where
  "process_docs lib target_index actions stats [] = (actions, stats)"
| "process_docs lib target_index actions stats (d # batch) =
     (case process_doc lib target_index d of
        Inr a \<Rightarrow> process_docs lib target_index (actions @ [a]) stats batch
      | Inl e \<Rightarrow>
          process_docs lib target_index actions (stats\<lparr>failed := failed stats + 1\<rparr>) batch)"

definition process_batch :: "pylib \<Rightarrow> string \<Rightarrow> stats \<Rightarrow> doc list \<Rightarrow> action list \<times> stats" where
  "process_batch lib target_index stats batch = process_docs lib target_index [] stats batch"

text \<open>The arguments of \<^verbatim>\<open>helpers.bulk\<close> (lines 365--376).\<close>

definition bulk_call :: "action list \<Rightarrow> bulk_request" where
  "bulk_call actions =
     \<lparr>bulk_actions = actions, stats_only = True, raise_on_error = False,
      chunk_size = length actions, bulk_request_timeout = 300, bulk_max_retries = 5,
      bulk_retry_on_timeout = True\<rparr>"

text \<open>
  The \<^verbatim>\<open>for batch in ...\<close> loop (lines 351--381) over the batches the iterator yields.
  The state is the statistics, the list \<^verbatim>\<open>futures\<close> (each future stands for the bulk
  request it was submitted with) and the variable \<^verbatim>\<open>actions\<close>, which keeps the value of
  the last iteration after the loop.
\<close>

fun dispatch ::
  "pylib \<Rightarrow> string \<Rightarrow> stats \<times> bulk_request list \<times> action list \<Rightarrow> doc list list \<Rightarrow>
   stats \<times> bulk_request list \<times> action list" where
  "dispatch lib target_index st [] = st"
| "dispatch lib target_index (stats, futures, last_actions) (batch # batches) =
     (case process_batch lib target_index stats batch of
        (actions, stats1) \<Rightarrow>
          dispatch lib target_index
            (stats1, (if actions \<noteq> [] then futures @ [bulk_call actions] else futures), actions)
            batches)"

text \<open>
  The \<^verbatim>\<open>for future in futures\<close> loop (lines 384--392). \<^verbatim>\<open>helpers.bulk\<close> with
  \<^verbatim>\<open>stats_only=True\<close> returns \<^verbatim>\<open>(success, failed)\<close>. When a bulk call raises, the
  handler adds \<^verbatim>\<open>len(actions)\<close>, where \<^verbatim>\<open>actions\<close> is the variable of the loop above.
\<close>

fun collect :: "store \<Rightarrow> action list \<Rightarrow> stats \<Rightarrow> bulk_request list \<Rightarrow> stats" where
  "collect target_es last_actions stats [] = stats"
| "collect target_es last_actions stats (future # futures) =
     collect target_es last_actions
       (case bulk target_es future of
          Inr (success, nfailed) \<Rightarrow>
            stats\<lparr>processed := processed stats + success, updated := updated stats + success,
                   failed := failed stats + nfailed\<rparr>
        | Inl e \<Rightarrow> stats\<lparr>failed := failed stats + int (length last_actions)\<rparr>)
       futures"

section \<open>Extractor and per-collection replication\<close>

text \<open>The arguments of \<^verbatim>\<open>helpers.scan\<close> (lines 352--360).\<close>

definition scan_call :: "string \<Rightarrow> scan_request" where
  "scan_call source_index =
     \<lparr>scan_index = source_index, scan_match_all = True, scan_size = batch_size,
      scan_scroll = scroll_time, preserve_order = True, scan_request_timeout = 300\<rparr>"

text \<open>
  The calls \<^verbatim>\<open>replicate_index\<close> issues that change the target or open a cursor on the
  source, in the order they are issued. A call is logged when it is issued, whatever its
  outcome.
\<close>

datatype call =
    PutSettings string string
  | CreateIndex string
  | Scan scan_request
  | Bulk bulk_request

text \<open>What a call log holds of each kind.\<close>

fun bulk_requests :: "call list \<Rightarrow> bulk_request list" where
  "bulk_requests [] = []"
| "bulk_requests (Bulk r # calls) = r # bulk_requests calls"
| "bulk_requests (c # calls) = bulk_requests calls"

fun scan_requests :: "call list \<Rightarrow> scan_request list" where
  "scan_requests [] = []"
| "scan_requests (Scan r # calls) = r # scan_requests calls"
| "scan_requests (c # calls) = scan_requests calls"

fun refresh_settings :: "call list \<Rightarrow> (string \<times> string) list" where
  "refresh_settings [] = []"
| "refresh_settings (PutSettings i v # calls) = (i, v) # refresh_settings calls"
| "refresh_settings (c # calls) = refresh_settings calls"

text \<open>
  Line 351 calls \<^verbatim>\<open>batch_iterator(helpers.scan(...), self.batch_size)\<close>. A batch iterator
  takes the scan (the documents the cursor yields, and the error it ends with, if any)
  and the batch size, and yields batches, possibly ending with an error.
  The module binds no name \<^verbatim>\<open>batch_iterator\<close>: lines 1--12 import \<^verbatim>\<open>logging\<close>,
  \<^verbatim>\<open>datetime\<close>, \<^verbatim>\<open>timedelta\<close>, \<^verbatim>\<open>Elasticsearch\<close>, \<^verbatim>\<open>helpers\<close>, \<^verbatim>\<open>es_exceptions\<close>,
  \<^verbatim>\<open>time\<close>, \<^verbatim>\<open>re\<close>, \<^verbatim>\<open>hashlib\<close>, \<^verbatim>\<open>argparse\<close>, \<^verbatim>\<open>yaml\<close>, \<^verbatim>\<open>Dict\<close>, \<^verbatim>\<open>Any\<close>,
  \<^verbatim>\<open>List\<close>, \<^verbatim>\<open>Optional\<close>, \<^verbatim>\<open>ThreadPoolExecutor\<close> and \<^verbatim>\<open>islice\<close>, and the module defines
  \<^verbatim>\<open>ESFullReplicator\<close>, \<^verbatim>\<open>load_config\<close>, \<^verbatim>\<open>parse_args\<close>, \<^verbatim>\<open>merge_configs\<close> and
  \<^verbatim>\<open>main\<close>; it is no builtin either. Python looks the name up before it evaluates the
  arguments, so \<^verbatim>\<open>NameError\<close> is raised before \<^verbatim>\<open>helpers.scan\<close> is called.
  The functions below take the binding of the name as a parameter (\<open>None\<close>: unbound), so
  that the loop body of the source is part of the model; \<open>batch_iterator\<close> is the
  binding in the program as it is.
\<close>

type_synonym batch_iter = "doc list \<times> error option \<Rightarrow> nat \<Rightarrow> doc list list \<times> error option"

definition batch_iterator :: "batch_iter option" where
  "batch_iterator = None"

text \<open>The handlers of \<^verbatim>\<open>replicate_index\<close> (lines 404--409): \<^verbatim>\<open>NotFoundError\<close> returns
  the statistics as they stand, every other exception is logged and raised again.\<close>

definition on_error :: "stats \<Rightarrow> error \<Rightarrow> error + stats" where
  "on_error stats e = (if e = NotFoundError then Inr stats else Inl e)"

text \<open>\<^verbatim>\<open>target_index = target_index or source_index\<close> (line 293).\<close>

definition resolve_target :: "string option \<Rightarrow> string \<Rightarrow> string" where
  "resolve_target target_index source_index =
     (case target_index of
        None \<Rightarrow> source_index
      | Some t \<Rightarrow> if t = [] then source_index else t)"

text \<open>Lines 312--313.\<close>

definition ensure_target :: "store \<Rightarrow> string \<Rightarrow> json \<Rightarrow> json \<Rightarrow> call list \<times> (error + unit)" where
  "ensure_target target_es target_index index_settings index_mappings =
     (case indices_exists target_es target_index of
        Inl e \<Rightarrow> ([], Inl e)
      | Inr present \<Rightarrow>
          if present then ([], Inr ())
          else ([CreateIndex target_index],
                create_target target_es target_index index_settings index_mappings))"

text \<open>Lines 346--402: the scan, the batch loop, the collection of the bulk results and
  the restoring \<^verbatim>\<open>put_settings\<close>, which is the last statement of the \<^verbatim>\<open>try\<close> body.\<close>

definition scan_and_load ::
  "batch_iter option \<Rightarrow> pylib \<Rightarrow> store \<Rightarrow> store \<Rightarrow> string \<Rightarrow> string \<Rightarrow> stats \<Rightarrow>
   call list \<times> (error + stats)" where
  "scan_and_load iter lib source_es target_es source_index target_index stats =
     (case iter of
        None \<Rightarrow> ([], on_error stats (NameError ''batch_iterator''))
      | Some batches_of \<Rightarrow>
          (case batches_of (scan source_es (scan_call source_index)) batch_size of
             (batches, err) \<Rightarrow>
               (case dispatch lib target_index (stats, [], []) batches of
                  (stats1, futures, last_actions) \<Rightarrow>
                    (case err of
                       Some e \<Rightarrow>
                         (Scan (scan_call source_index) # map Bulk futures, on_error stats1 e)
                     | None \<Rightarrow>
                         (let stats2 = collect target_es last_actions stats1 futures;
                              calls = Scan (scan_call source_index) # map Bulk futures
                                        @ [PutSettings target_index ''1s'']
                          in case indices_put_settings target_es target_index ''1s'' of
                               Inl e \<Rightarrow> (calls, on_error stats2 e)
                             | Inr _ \<Rightarrow> (calls, Inr stats2))))))"

text \<open>\<^verbatim>\<open>replicate_index\<close> (lines 292--409).\<close>

definition replicate_index_with ::
  "batch_iter option \<Rightarrow> pylib \<Rightarrow> store \<Rightarrow> store \<Rightarrow> string \<Rightarrow> string option \<Rightarrow>
   call list \<times> (error + stats)" where
  "replicate_index_with iter lib source_es target_es source_index target_opt =
     (let target_index = resolve_target target_opt source_index;
          stats = stats0;
          disable = PutSettings target_index ''-1''
      in case indices_put_settings target_es target_index ''-1'' of
           Inl e \<Rightarrow> ([disable], on_error stats e)
         | Inr _ \<Rightarrow>
        (case indices_exists source_es source_index of
           Inl e \<Rightarrow> ([disable], on_error stats e)
         | Inr present \<Rightarrow>
        if \<not> present then ([disable], Inr stats)
        else
        (case indices_get_settings source_es source_index of
           Inl e \<Rightarrow> ([disable], on_error stats e)
         | Inr index_settings \<Rightarrow>
        (case indices_get_mapping source_es source_index of
           Inl e \<Rightarrow> ([disable], on_error stats e)
         | Inr index_mappings \<Rightarrow>
        (case ensure_target target_es target_index index_settings index_mappings of
           (created, Inl e) \<Rightarrow> (disable # created, on_error stats e)
         | (created, Inr _) \<Rightarrow>
        (case count_docs source_es source_index of
           Inl e \<Rightarrow> (disable # created, on_error stats e)
         | Inr total_docs \<Rightarrow>
        if total_docs = 0 then (disable # created, Inr stats)
        else
        (case scan_and_load iter lib source_es target_es source_index target_index stats of
           (calls, result) \<Rightarrow> (disable # created @ calls, result))))))))"

definition replicate_index ::
  "pylib \<Rightarrow> store \<Rightarrow> store \<Rightarrow> string \<Rightarrow> string option \<Rightarrow> call list \<times> (error + stats)" where
  "replicate_index = replicate_index_with batch_iterator"

section \<open>Replication coordinator\<close>

text \<open>
  \<^verbatim>\<open>_replicate_single_index\<close> (lines 240--249). \<^verbatim>\<open>_detect_timestamp_field\<close> catches every
  exception itself and only sets \<^verbatim>\<open>self.timestamp_field\<close>, which nothing reads; it is left
  out. An exception of \<^verbatim>\<open>replicate_index\<close> becomes the statistics of line 249, so the
  function returns statistics in every case.
\<close>

definition replicate_single_index :: "pylib \<Rightarrow> store \<Rightarrow> store \<Rightarrow> string \<Rightarrow> call list \<times> stats" where
  "replicate_single_index lib source_es target_es index =
     (case replicate_index lib source_es target_es index None of
        (calls, Inr stats) \<Rightarrow> (calls, stats)
      | (calls, Inl e) \<Rightarrow> (calls, \<lparr>processed = 0, updated = 0, failed = 1\<rparr>))"

text \<open>
  One pass of \<^verbatim>\<open>replicate_all_indices\<close> over the discovered indices (lines 192--217):
  the results are read in the order of submission and added key by key;
  \<^verbatim>\<open>stats.get(k, 0)\<close> is 0 for the keys \<^verbatim>\<open>checked\<close> and \<^verbatim>\<open>mismatches\<close>, which the
  per-index statistics do not have. The handler of line 215 is not reached, since
  \<^verbatim>\<open>_replicate_single_index\<close> does not raise. The accumulator holds the calls issued so
  far and the totals.
\<close>

record total_stats =
  total_processed :: int
  total_updated :: int
  total_failed :: int
  total_checked :: int
  total_mismatches :: int

definition total_stats0 :: total_stats where
  "total_stats0 =
     \<lparr>total_processed = 0, total_updated = 0, total_failed = 0, total_checked = 0,
      total_mismatches = 0\<rparr>"

definition add_stats :: "total_stats \<Rightarrow> stats \<Rightarrow> total_stats" where
  "add_stats tot st =
     \<lparr>total_processed = total_processed tot + processed st,
      total_updated = total_updated tot + updated st,
      total_failed = total_failed tot + failed st,
      total_checked = total_checked tot + 0,
      total_mismatches = total_mismatches tot + 0\<rparr>"

fun replicate_pass ::
  "pylib \<Rightarrow> store \<Rightarrow> store \<Rightarrow> call list \<times> total_stats \<Rightarrow> string list \<Rightarrow> call list \<times> total_stats" where
  "replicate_pass lib source_es target_es acc [] = acc"
| "replicate_pass lib source_es target_es (calls, tot) (index # indices) =
     (case replicate_single_index lib source_es target_es index of
        (calls1, st) \<Rightarrow>
          replicate_pass lib source_es target_es (calls @ calls1, add_stats tot st) indices)"

section \<open>Test fixtures\<close>

text \<open>
  Concrete clusters for the scenarios below. \<open>down_store\<close> is a cluster every call to
  which raises a transport error. \<open>mem_store docs\<close> is a cluster that answers every call
  and holds the documents \<open>docs\<close> in each collection: it counts them, returns the first
  \<open>size\<close> of them as the sample of a search (all of them when \<open>size\<close> is at least their
  number), with \<^verbatim>\<open>_source\<close> filtered to the requested fields, and accepts every action
  of a bulk request. \<open>count_only_store n\<close> knows its collections and counts \<open>n\<close> documents,
  and raises on everything else, searches included.
\<close>

definition project :: "string list \<Rightarrow> doc \<Rightarrow> doc" where
  "project fs d =
     d\<lparr>doc_source := map_option (filter (\<lambda>kv. fst kv \<in> set fs)) (doc_source d)\<rparr>"

definition down_store :: store where
  "down_store =
     \<lparr>indices_exists = (\<lambda>_. Inl TransportError),
      indices_get = (\<lambda>_. Inl TransportError),
      indices_get_settings = (\<lambda>_. Inl TransportError),
      indices_get_mapping = (\<lambda>_. Inl TransportError),
      indices_put_settings = (\<lambda>_ _. Inl TransportError),
      create_target = (\<lambda>_ _ _. Inl TransportError),
      count_docs = (\<lambda>_. Inl TransportError),
      search = (\<lambda>_ _. Inl TransportError),
      get_doc = (\<lambda>_ _. Inl TransportError),
      scan = (\<lambda>_. ([], Some TransportError)),
      bulk = (\<lambda>_. Inl TransportError)\<rparr>"

definition mem_store :: "doc list \<Rightarrow> store" where
  "mem_store docs =
     \<lparr>indices_exists = (\<lambda>_. Inr True),
      indices_get = (\<lambda>_. Inr ()),
      indices_get_settings = (\<lambda>_. Inr (JObj [])),
      indices_get_mapping = (\<lambda>_. Inr (JObj [])),
      indices_put_settings = (\<lambda>_ _. Inr ()),
      create_target = (\<lambda>_ _ _. Inr ()),
      count_docs = (\<lambda>_. Inr (int (length docs))),
      search = (\<lambda>_ q. Inr (map (project (query_source_fields q))
                              (take (nat (query_size q)) docs))),
      get_doc = (\<lambda>_ _. Inl NotFoundError),
      scan = (\<lambda>_. (docs, None)),
      bulk = (\<lambda>r. Inr (int (length (bulk_actions r)), 0))\<rparr>"

definition count_only_store :: "int \<Rightarrow> store" where
  "count_only_store n = down_store\<lparr>indices_get := (\<lambda>_. Inr ()), count_docs := (\<lambda>_. Inr n)\<rparr>"

text \<open>
  \<open>fixture_lib\<close> stands in for the library functions; its \<open>fromisoformat\<close> raises
  \<^verbatim>\<open>TypeError\<close> on a value that is not a string, as the library does, and parses no
  string (no scenario below stores a timestamp). \<open>plain_doc i\<close> is a document
  with one field and no fingerprint field, as a client of the source cluster writes it;
  \<open>fp_doc i h\<close> is a document whose fingerprint field holds \<open>h\<close>.
  \<open>drift_source\<close> is a collection of 100 documents, \<open>drift_target\<close> the same collection
  with the field of one document altered. \<open>stored_fingerprints docs\<close> is the
  id-to-fingerprint map read off the documents themselves.
\<close>

definition fixture_lib :: pylib where
  "fixture_lib =
     \<lparr>py_str = (\<lambda>items. concat (map fst items)),
      encode_utf8 = Inr,
      sha256_hexdigest = (\<lambda>s. ''sha256:'' @ s),
      fromisoformat = (\<lambda>v. case v of JStr s \<Rightarrow> Inl ValueError | _ \<Rightarrow> Inl TypeError)\<rparr>"

definition plain_doc :: "nat \<Rightarrow> doc" where
  "plain_doc i = \<lparr>doc_id = ''doc'' @ [char_of i], doc_source = Some [(''n'', JNum (int i))]\<rparr>"

definition fp_doc :: "string \<Rightarrow> string \<Rightarrow> doc" where
  "fp_doc i h = \<lparr>doc_id = i, doc_source = Some [(checksum_field, JStr h)]\<rparr>"

definition drift_source :: "doc list" where
  "drift_source = map plain_doc [0..<100]"

definition drift_target :: "doc list" where
  "drift_target =
     drift_source[7 := \<lparr>doc_id = doc_id (plain_doc 7), doc_source = Some [(''n'', JNum 1000)]\<rparr>]"

definition stored_fingerprints :: "doc list \<Rightarrow> pydict" where
  "stored_fingerprints docs =
     map (\<lambda>d. (doc_id d, dict_get (the (doc_source d)) checksum_field)) docs"

text \<open>
  \<open>batch_actions\<close> are the actions \<^verbatim>\<open>process_batch\<close> stages for a batch (one for each
  document whose processing does not raise, in order) and \<open>batch_failures\<close> the number
  of documents whose processing raises. \<open>one_batch\<close> is a batch iterator that yields
  all scanned documents as a single batch; \<open>broken_doc\<close> is a hit without \<^verbatim>\<open>_source\<close>;
  \<open>flaky_target\<close> raises on \<^verbatim>\<open>put_settings\<close> for the index \<^verbatim>\<open>a\<close> only;
  \<open>fresh_target\<close> is a target cluster on which no index exists yet.
\<close>

definition batch_actions :: "pylib \<Rightarrow> string \<Rightarrow> doc list \<Rightarrow> action list" where
  "batch_actions lib target_index batch =
     concat (map (\<lambda>d. case process_doc lib target_index d of Inr a \<Rightarrow> [a] | Inl e \<Rightarrow> []) batch)"

definition batch_failures :: "pylib \<Rightarrow> string \<Rightarrow> doc list \<Rightarrow> nat" where
  "batch_failures lib target_index batch =
     length (filter (\<lambda>d. isl (process_doc lib target_index d)) batch)"

definition one_batch :: batch_iter where
  "one_batch gen n = (case gen of (docs, err) \<Rightarrow> (if docs = [] then [] else [docs], err))"

definition flaky_target :: store where
  "flaky_target =
     (mem_store [])\<lparr>indices_put_settings :=
        (\<lambda>i v. if i = ''a'' then Inl TransportError else Inr ())\<rparr>"

definition fresh_target :: store where
  "fresh_target = (mem_store [])\<lparr>indices_exists := (\<lambda>_. Inr False)\<rparr>"

definition broken_doc :: "string \<Rightarrow> doc" where
  "broken_doc i = \<lparr>doc_id = i, doc_source = None\<rparr>"

text \<open>
  \<open>stored_doc a\<close> is the document the target holds once the action \<open>a\<close> is indexed;
  \<open>failing_scan_store docs\<close> is \<open>mem_store docs\<close> with a cursor that yields the documents
  and then raises.
\<close>

text \<open>
  \<open>unprepared_target\<close> is a target cluster on which the index does not exist yet:
  \<^verbatim>\<open>indices.exists\<close> returns false and \<^verbatim>\<open>put_settings\<close> raises \<^verbatim>\<open>NotFoundError\<close>.
  \<open>canonical\<close> sorts the entries of every object of a JSON value by key: values that
  differ only in the order of the entries of their objects have the same canonical form,
  and Python's \<^verbatim>\<open>==\<close> holds such values equal (it compares dicts as maps). \<open>nested_xy\<close> and \<open>nested_yx\<close> are
  the field maps \<^verbatim>\<open>{'a': {'x': 1, 'y': 2}}\<close> and \<^verbatim>\<open>{'a': {'y': 2, 'x': 1}}\<close>.
\<close>

definition unprepared_target :: store where
  "unprepared_target =
     fresh_target\<lparr>indices_put_settings := (\<lambda>_ _. Inl NotFoundError)\<rparr>"

primrec canonical :: "json \<Rightarrow> json" where
  "canonical JNull = JNull"
| "canonical (JBool b) = JBool b"
| "canonical (JNum n) = JNum n"
| "canonical (JStr s) = JStr s"
| "canonical (JList vs) = JList (map canonical vs)"
| "canonical (JObj kvs) = JObj (sort_key fst (map (map_prod id canonical) kvs))"

definition nested_xy :: pydict where
  "nested_xy = [(''a'', JObj [(''x'', JNum 1), (''y'', JNum 2)])]"

definition nested_yx :: pydict where
  "nested_yx = [(''a'', JObj [(''y'', JNum 2), (''x'', JNum 1)])]"

definition stored_doc :: "action \<Rightarrow> doc" where
  "stored_doc a = \<lparr>doc_id = action_id a, doc_source = Some (action_source a)\<rparr>"

definition failing_scan_store :: "doc list \<Rightarrow> store" where
  "failing_scan_store docs = (mem_store docs)\<lparr>scan := (\<lambda>_. (docs, Some TransportError))\<rparr>"

section \<open>Properties of the hasher\<close>

lemma sorted_items_unique:
  assumes "distinct (map fst xs)" and "distinct (map fst ys)" and "set xs = set ys"
  shows "sorted_items xs = sorted_items ys"
proof -
  let ?a = "sort_key fst xs" and ?b = "sort_key fst ys"
  have k: "map fst ?a = map fst ?b"
  proof (rule sorted_distinct_set_unique)
    show "sorted (map fst ?a)" by simp
    show "sorted (map fst ?b)" by simp
    show "distinct (map fst ?a)" using assms(1) by (simp add: distinct_map inj_on_def)
    show "distinct (map fst ?b)" using assms(2) by (simp add: distinct_map inj_on_def)
    show "set (map fst ?a) = set (map fst ?b)" using assms(3) by simp
  qed
  have "?a = ?b"
  proof (rule list.inj_map_strong [OF _ k])
    fix z za
    assume a: "z \<in> set ?a" and b: "za \<in> set ?b" and c: "fst z = fst za"
    from a have "(fst z, snd z) \<in> set ys"
      using assms(3) by simp
    moreover from b have "(fst za, snd za) \<in> set ys"
      by simp
    then have "(fst z, snd za) \<in> set ys"
      by (simp only: c)
    ultimately have "snd z = snd za"
      using assms(2) by (rule_tac eq_key_imp_eq_value)
    with c show "z = za" by (simp add: prod_eq_iff)
  qed
  then show ?thesis by (simp add: sorted_items_def)
qed

text \<open>
  The insertion order of the top-level entries does not reach the hash: two field maps
  with the same top-level entries (each key with the same value, a nested object with its
  entries in the same order) have the same fingerprint, the same hex digest or the same
  encoding error. A field map is a dict: its keys are distinct.
\<close>

lemma fingerprint_deterministic:
  assumes "distinct (map fst m1)" and "distinct (map fst m2)" and "set m1 = set m2"
  shows "generate_doc_hash lib m1 = generate_doc_hash lib m2"
  using sorted_items_unique [OF assms] by (simp add: generate_doc_hash_def)

lemma fingerprint_deterministic_witness:
  "\<forall>lib. generate_doc_hash lib [(''b'', JNum 2), (''a'', JStr ''x'')]
        = generate_doc_hash lib [(''a'', JStr ''x''), (''b'', JNum 2)]"
  using fingerprint_deterministic
    [of "[(''b'', JNum 2), (''a'', JStr ''x'')]" "[(''a'', JStr ''x''), (''b'', JNum 2)]"]
  by auto

text \<open>
  C5. The field maps \<^verbatim>\<open>{'a': {'x': 1, 'y': 2}}\<close> and \<^verbatim>\<open>{'a': {'y': 2, 'x': 1}}\<close> have the
  same keys and values (Python holds them equal). \<^verbatim>\<open>sorted(doc_source.items())\<close> orders
  the top-level items only: each map is its own sorted item list, and the two lists
  handed to \<^verbatim>\<open>str\<close> differ in the order of the nested entries, which \<^verbatim>\<open>str\<close> renders
  as it finds them. The fingerprint is the digest of two different texts.
\<close>

theorem nested_order_reaches_hash:
  "canonical (JObj nested_xy) = canonical (JObj nested_yx)
   \<and> sorted_items nested_xy = [(''a'', JObj [(''x'', JNum 1), (''y'', JNum 2)])]
   \<and> sorted_items nested_yx = [(''a'', JObj [(''y'', JNum 2), (''x'', JNum 1)])]
   \<and> sorted_items nested_xy \<noteq> sorted_items nested_yx
   \<and> generate_doc_hash lib nested_xy
       = (case encode_utf8 lib (py_str lib [(''a'', JObj [(''x'', JNum 1), (''y'', JNum 2)])]) of
            Inl e \<Rightarrow> Inl e | Inr t \<Rightarrow> Inr (sha256_hexdigest lib t))
   \<and> generate_doc_hash lib nested_yx
       = (case encode_utf8 lib (py_str lib [(''a'', JObj [(''y'', JNum 2), (''x'', JNum 1)])]) of
            Inl e \<Rightarrow> Inl e | Inr t \<Rightarrow> Inr (sha256_hexdigest lib t))"
  by (simp add: nested_xy_def nested_yx_def sorted_items_def generate_doc_hash_def)

section \<open>Properties of the drift verifier\<close>

lemma compare_fold:
  "foldl (compare_doc ss ts) st ids =
     st\<lparr>checked := checked st + int (length ids),
        mismatches := mismatches st + int (length (filter (sample_mismatch ss ts) ids))\<rparr>"
  by (induction ids arbitrary: st) (simp_all add: compare_doc_def sample_mismatch_def Let_def)

lemma compare_samples_eq:
  "compare_samples ss ts st =
     st\<lparr>checked := checked st + int (length ss),
        mismatches := mismatches st + int (length (filter (sample_mismatch ss ts) (map fst ss)))\<rparr>"
  by (simp add: compare_samples_def compare_fold)

lemma verify_sample_cases:
  "verify_sample source_es target_es index n st = st \<or>
   (\<exists>ss ts. verify_sample source_es target_es index n st = compare_samples ss ts st)"
  by (auto simp: verify_sample_def split: sum.splits)

lemma verify_sample_count_mismatches:
  "count_mismatches (verify_sample source_es target_es index n st) = count_mismatches st"
  using verify_sample_cases [of source_es target_es index n st]
  by (auto simp: compare_samples_eq)

lemma verify_sample_mismatches_mono:
  "mismatches st \<le> mismatches (verify_sample source_es target_es index n st)"
  using verify_sample_cases [of source_es target_es index n st]
  by (auto simp: compare_samples_eq)

lemma verify_sample_search_error:
  "search source_es index (sample_request n) = Inl e \<Longrightarrow>
   verify_sample source_es target_es index n st = st"
  by (simp add: verify_sample_def)

lemma count_check_eq:
  "count_check s t st =
     st\<lparr>mismatches := mismatches st + \<bar>s - t\<bar>,
        count_mismatches := count_mismatches st + \<bar>s - t\<bar>\<rparr>"
  by (simp add: count_check_def Let_def)

text \<open>
  C8. For a collection present on both clusters with source count \<open>s\<close> and target count
  \<open>t\<close>, verification adds \<open>|s - t|\<close> to \<open>count_mismatches\<close> and to \<open>mismatches\<close>. The
  delta is recorded before any sampling and does not depend on it: \<open>count_mismatches\<close>
  grows by exactly \<open>|s - t|\<close> whatever the searches return, \<open>mismatches\<close> by at least
  as much, and by exactly as much when the sampling search raises.
\<close>

theorem count_mismatch_recorded:
  assumes "indices_get target_es index = Inr ()"
    and "indices_get source_es index = Inr ()"
    and "count_docs source_es index = Inr s"
    and "count_docs target_es index = Inr t"
  shows "count_mismatches (verify_index source_es target_es st index)
           = count_mismatches st + \<bar>s - t\<bar>
       \<and> mismatches st + \<bar>s - t\<bar> \<le> mismatches (verify_index source_es target_es st index)
       \<and> (\<forall>e. search source_es index (sample_request (min 1000 s)) = Inl e \<longrightarrow>
            mismatches (verify_index source_es target_es st index) = mismatches st + \<bar>s - t\<bar>)"
  using assms
    verify_sample_mismatches_mono [of "count_check s t st" source_es target_es index "min 1000 s"]
  by (auto simp: verify_index_def Let_def verify_sample_count_mismatches
      verify_sample_search_error count_check_eq)

theorem count_mismatch_recorded_witness:
  "count_mismatches (verify_replication (count_only_store 100) (count_only_store 97) [''logs'']) = 3
   \<and> mismatches (verify_replication (count_only_store 100) (count_only_store 97) [''logs'']) = 3"
  using count_mismatch_recorded
    [of "count_only_store 97" "''logs''" "count_only_store 100" 100 97 verify_stats0]
  by (simp add: verify_replication_def count_only_store_def down_store_def verify_stats0_def
      sample_request_def)

text \<open>
  C9 (as amended). Comparing the sampled id-to-fingerprint maps adds one mismatch for
  each id of the source's sample that is absent from the target's sample or has another
  fingerprint there, and adds one to \<open>checked\<close> for every id of the source's sample,
  matching or not.
\<close>

theorem sample_comparison_counts:
  "mismatches (compare_samples ss ts st)
     = mismatches st + int (length (filter (sample_mismatch ss ts) (map fst ss)))
   \<and> checked (compare_samples ss ts st) = checked st + int (length ss)
   \<and> missing_indices (compare_samples ss ts st) = missing_indices st
   \<and> count_mismatches (compare_samples ss ts st) = count_mismatches st"
  by (simp add: compare_samples_eq)

text \<open>
  The claim as stated fails: two ids are sampled on each side, one with equal and one
  with different fingerprints. One entry matches, one mismatch is counted, and
  \<open>checked\<close> is 2.
\<close>

theorem checked_counts_all_counterexample:
  "checked (verify_replication (mem_store [fp_doc ''a'' ''h1'', fp_doc ''b'' ''h2''])
              (mem_store [fp_doc ''a'' ''h1'', fp_doc ''b'' ''zz'']) [''logs'']) = 2
   \<and> mismatches (verify_replication (mem_store [fp_doc ''a'' ''h1'', fp_doc ''b'' ''h2''])
              (mem_store [fp_doc ''a'' ''h1'', fp_doc ''b'' ''zz'']) [''logs'']) = 1
   \<and> length (filter (Not \<circ> sample_mismatch [(''a'', JStr ''h1''), (''b'', JStr ''h2'')]
                                [(''a'', JStr ''h1''), (''b'', JStr ''zz'')]) [''a'', ''b'']) = 1"
  by (simp add: verify_replication_def verify_index_def verify_sample_def mem_store_def
      fp_doc_def project_def checksum_field_def sample_request_def count_check_def
      compare_samples_def compare_doc_def sample_mismatch_def dict_get_def verify_stats0_def
      Let_def)

subsection \<open>Verification of in-memory clusters\<close>

lemma update_fresh: "k \<notin> fst ` set al \<Longrightarrow> AList.update k v al = al @ [(k, v)]"
  by (induction al) auto

lemma sample_dict_distinct:
  assumes "distinct (map doc_id hits)"
    and "\<forall>h\<in>set hits. doc_source h \<noteq> None"
    and "doc_id ` set hits \<inter> fst ` set acc = {}"
  shows "sample_dict acc hits = Inr (acc @ stored_fingerprints hits)"
  using assms
proof (induction hits arbitrary: acc)
  case Nil
  then show ?case by (simp add: stored_fingerprints_def)
next
  case (Cons h hits)
  from Cons.prems obtain src where src: "doc_source h = Some src" by auto
  have fresh: "doc_id h \<notin> fst ` set acc" using Cons.prems(3) by auto
  let ?acc = "acc @ [(doc_id h, dict_get src checksum_field)]"
  have "doc_id ` set hits \<inter> fst ` set ?acc = {}"
    using Cons.prems(1,3) by auto
  with Cons.IH [of ?acc] Cons.prems(1,2)
  show ?case by (simp add: src update_fresh [OF fresh] stored_fingerprints_def)
qed

lemma map_of_filter_key: "map_of (filter (\<lambda>kv. fst kv = k) al) k = map_of al k"
  by (induction al) auto

lemma stored_fingerprints_project:
  "\<forall>d\<in>set docs. doc_source d \<noteq> None \<Longrightarrow>
   stored_fingerprints (map (project [checksum_field]) docs) = stored_fingerprints docs"
  by (induction docs)
    (auto simp: stored_fingerprints_def project_def dict_get_def map_of_filter_key)

lemma search_mem_store:
  assumes "distinct (map doc_id docs)" and "\<forall>d\<in>set docs. doc_source d \<noteq> None"
  shows "\<exists>hits. search (mem_store docs) index (sample_request n) = Inr hits
           \<and> sample_dict [] hits = Inr (stored_fingerprints (take (nat n) docs))"
proof -
  let ?s = "take (nat n) docs"
  let ?hits = "map (project [checksum_field]) ?s"
  have d: "distinct (map doc_id ?s)"
    using assms(1) by (simp add: take_map [symmetric] distinct_take)
  have s: "\<forall>d\<in>set ?s. doc_source d \<noteq> None"
    using assms(2) by (auto dest: in_set_takeD)
  have "doc_id \<circ> project [checksum_field] = doc_id"
    by (simp add: project_def fun_eq_iff)
  then have "map doc_id ?hits = map doc_id ?s" by simp
  with d have "distinct (map doc_id ?hits)" by (simp only:)
  moreover have "\<forall>h\<in>set ?hits. doc_source h \<noteq> None"
    using s by (auto simp: project_def)
  ultimately have "sample_dict [] ?hits = Inr (stored_fingerprints ?hits)"
    using sample_dict_distinct [of ?hits "[]"] by simp
  then show ?thesis
    using stored_fingerprints_project [OF s] by (simp add: mem_store_def sample_request_def)
qed

lemma verify_mem_store:
  assumes "distinct (map doc_id docs)" and "\<forall>d\<in>set docs. doc_source d \<noteq> None"
    and "distinct (map doc_id tdocs)" and "\<forall>d\<in>set tdocs. doc_source d \<noteq> None"
    and "docs \<noteq> []" and "length docs \<le> 1000"
  shows "verify_replication (mem_store docs) (mem_store tdocs) [index] =
           compare_samples (stored_fingerprints docs)
             (stored_fingerprints (take (length docs) tdocs))
             (count_check (int (length docs)) (int (length tdocs)) verify_stats0)"
proof -
  let ?n = "min 1000 (int (length docs))"
  have n: "?n = int (length docs)" "?n \<noteq> 0" using assms(5,6) by auto
  obtain sh where sh: "search (mem_store docs) index (sample_request ?n) = Inr sh"
    "sample_dict [] sh = Inr (stored_fingerprints (take (nat ?n) docs))"
    using search_mem_store [OF assms(1,2)] by blast
  obtain th where th: "search (mem_store tdocs) index (sample_request ?n) = Inr th"
    "sample_dict [] th = Inr (stored_fingerprints (take (nat ?n) tdocs))"
    using search_mem_store [OF assms(3,4)] by blast
  have "verify_sample (mem_store docs) (mem_store tdocs) index ?n st =
          compare_samples (stored_fingerprints docs)
             (stored_fingerprints (take (length docs) tdocs)) st" for st
    using sh th by (simp add: verify_sample_def n)
  moreover have "indices_get (mem_store docs) index = Inr ()"
    "indices_get (mem_store tdocs) index = Inr ()"
    "count_docs (mem_store docs) index = Inr (int (length docs))"
    "count_docs (mem_store tdocs) index = Inr (int (length tdocs))"
    by (simp_all add: mem_store_def)
  ultimately show ?thesis
    using n by (simp add: verify_replication_def verify_index_def Let_def)
qed

lemma no_mismatch_same_sample: "filter (sample_mismatch ss ss) (map fst ss) = []"
  by (auto simp: filter_empty_conv sample_mismatch_def map_of_eq_None_iff)

lemma doc_id_plain_inj:
  "i < 256 \<Longrightarrow> j < 256 \<Longrightarrow> doc_id (plain_doc i) = doc_id (plain_doc j) \<Longrightarrow> i = j"
  by (simp add: plain_doc_def char_of_eq_iff take_bit_nat_eq_self)

lemma drift_source_ids: "distinct (map doc_id drift_source)"
  by (auto simp: drift_source_def distinct_map inj_on_def intro: doc_id_plain_inj)

lemma drift_target_ids: "map doc_id drift_target = map doc_id drift_source"
  by (simp add: drift_target_def map_update drift_source_def list_update_same_conv)

lemma drift_target_fps: "stored_fingerprints drift_target = stored_fingerprints drift_source"
proof -
  have "map (\<lambda>d. dict_get (the (doc_source d)) checksum_field) drift_target
          = map (\<lambda>d. dict_get (the (doc_source d)) checksum_field) drift_source"
    by (simp add: drift_target_def map_update drift_source_def list_update_same_conv
        plain_doc_def dict_get_def checksum_field_def)
  moreover have "stored_fingerprints ds =
      zip (map doc_id ds) (map (\<lambda>d. dict_get (the (doc_source d)) checksum_field) ds)" for ds
    by (simp add: stored_fingerprints_def zip_map_map) (induction ds; simp)
  ultimately show ?thesis using drift_target_ids by simp
qed

text \<open>
  C3. The source holds 100 documents, the target the same 100 documents except that the
  field of one document is altered; both samples hold all 100 documents
  (\<^verbatim>\<open>sample_size = min(1000, 100)\<close>). The verifier compares the stored fingerprint fields
  only, and finds none on either side: it reports 100 checked documents and no
  mismatch, where the claim has exactly one.
\<close>

theorem altered_field_not_detected:
  "verify_replication (mem_store drift_source) (mem_store drift_target) [''logs'']
     = \<lparr>checked = 100, mismatches = 0, missing_indices = 0, count_mismatches = 0\<rparr>"
proof -
  have len: "length drift_source = 100" "length drift_target = 100"
    by (simp_all add: drift_source_def drift_target_def)
  have src: "\<forall>d\<in>set drift_source. doc_source d \<noteq> None"
    by (auto simp: drift_source_def plain_doc_def)
  have tgt: "\<forall>d\<in>set drift_target. doc_source d \<noteq> None"
    using src by (auto simp: drift_target_def dest!: set_update_subset_insert [THEN subsetD])
  have "distinct (map doc_id drift_target)"
    using drift_source_ids by (simp only: drift_target_ids)
  with drift_source_ids src tgt len
  have "verify_replication (mem_store drift_source) (mem_store drift_target) [''logs''] =
      compare_samples (stored_fingerprints drift_source)
        (stored_fingerprints (take (length drift_source) drift_target))
        (count_check (int (length drift_source)) (int (length drift_target)) verify_stats0)"
    by (intro verify_mem_store) auto
  then show ?thesis
    by (simp add: len drift_target_fps compare_samples_eq no_mismatch_same_sample
        count_check_def verify_stats0_def) (simp add: stored_fingerprints_def len)
qed

section \<open>Properties of the per-collection replication\<close>

lemma scan_and_load_unbound:
  "scan_and_load None lib s t i ti st = ([], Inl (NameError ''batch_iterator''))"
  by (simp add: scan_and_load_def on_error_def)

lemma replicate_index_calls:
  "\<exists>created. fst (replicate_index lib s t i topt)
                = PutSettings (resolve_target topt i) ''-1'' # created
     \<and> (created = [] \<or> created = [CreateIndex (resolve_target topt i)])"
  by (auto simp: replicate_index_def batch_iterator_def replicate_index_with_def Let_def
      scan_and_load_unbound ensure_target_def split: sum.splits prod.splits if_splits)

lemma replicate_index_never_loads:
  "bulk_requests (fst (replicate_index lib s t i topt)) = []"
  using replicate_index_calls [of lib s t i topt] by auto

lemma single_index_failed:
  "snd (replicate_index lib s t i None) = Inl e \<Longrightarrow>
   snd (replicate_single_index lib s t i) = \<lparr>processed = 0, updated = 0, failed = 1\<rparr>"
  by (cases "replicate_index lib s t i None") (auto simp: replicate_single_index_def)

lemma single_index_returned:
  "snd (replicate_index lib s t i None) = Inr st \<Longrightarrow>
   snd (replicate_single_index lib s t i) = st"
  by (cases "replicate_index lib s t i None") (auto simp: replicate_single_index_def)

text \<open>
  C1 (as amended). For an existing, non-empty source collection, when the store calls
  that precede the scan return normally (the refresh interval of the target index is
  disabled, the source settings and mappings are read, the target index exists or is
  created), \<^verbatim>\<open>replicate_index\<close> raises \<^verbatim>\<open>NameError\<close> for the unbound name
  \<^verbatim>\<open>batch_iterator\<close> before any scan is opened; \<^verbatim>\<open>_replicate_single_index\<close> turns it
  into the statistics \<open>processed = 0, updated = 0, failed = 1\<close>; no bulk request is
  submitted to the target.
\<close>

theorem replicate_index_name_error:
  assumes "indices_put_settings target_es index ''-1'' = Inr ()"
    and "indices_exists source_es index = Inr True"
    and "indices_get_settings source_es index = Inr index_settings"
    and "indices_get_mapping source_es index = Inr index_mappings"
    and "indices_exists target_es index = Inr True
         \<or> (indices_exists target_es index = Inr False
            \<and> create_target target_es index index_settings index_mappings = Inr ())"
    and "count_docs source_es index = Inr total_docs"
    and "total_docs \<noteq> 0"
  shows "snd (replicate_index lib source_es target_es index None)
           = Inl (NameError ''batch_iterator'')
       \<and> snd (replicate_single_index lib source_es target_es index)
           = \<lparr>processed = 0, updated = 0, failed = 1\<rparr>
       \<and> bulk_requests (fst (replicate_index lib source_es target_es index None)) = []
       \<and> scan_requests (fst (replicate_index lib source_es target_es index None)) = []"
proof -
  have r: "snd (replicate_index lib source_es target_es index None)
             = Inl (NameError ''batch_iterator'')"
    using assms
    by (auto simp: replicate_index_def batch_iterator_def replicate_index_with_def Let_def
        scan_and_load_unbound ensure_target_def resolve_target_def)
  then have "snd (replicate_single_index lib source_es target_es index)
           = \<lparr>processed = 0, updated = 0, failed = 1\<rparr>"
    by (rule single_index_failed)
  moreover have "scan_requests (fst (replicate_index lib source_es target_es index None)) = []"
    using replicate_index_calls [of lib source_es target_es index None] by auto
  ultimately show ?thesis using r replicate_index_never_loads by simp
qed

theorem replicate_index_name_error_witness:
  "snd (replicate_index fixture_lib (mem_store [plain_doc 1, plain_doc 2]) (mem_store [])
          ''logs'' None)
     = Inl (NameError ''batch_iterator'')
   \<and> snd (replicate_single_index fixture_lib (mem_store [plain_doc 1, plain_doc 2])
            (mem_store []) ''logs'')
     = \<lparr>processed = 0, updated = 0, failed = 1\<rparr>
   \<and> bulk_requests (fst (replicate_index fixture_lib (mem_store [plain_doc 1, plain_doc 2])
                           (mem_store []) ''logs'' None)) = []"
  using replicate_index_name_error
    [of "mem_store []" "''logs''" "mem_store [plain_doc 1, plain_doc 2]"
      "JObj []" "JObj []" 2 fixture_lib]
  by (simp add: mem_store_def)

text \<open>
  The claim as stated fails. The source collection exists and holds two documents. On a
  target without the index the first call, \<^verbatim>\<open>put_settings\<close> (lines 298--301, before the
  index is created at lines 312--313), raises \<^verbatim>\<open>NotFoundError\<close>; the handler of lines
  404--406 returns the statistics as they stand: no \<^verbatim>\<open>NameError\<close>, and
  \<^verbatim>\<open>_replicate_single_index\<close> returns \<open>failed = 0\<close>. On a target whose
  \<^verbatim>\<open>put_settings\<close> raises a transport error, that error is raised, not
  \<^verbatim>\<open>NameError\<close>.
\<close>

theorem missing_target_counterexample:
  "snd (replicate_index fixture_lib (mem_store [plain_doc 1, plain_doc 2]) unprepared_target
          ''logs'' None)
     = Inr \<lparr>processed = 0, updated = 0, failed = 0\<rparr>
   \<and> snd (replicate_single_index fixture_lib (mem_store [plain_doc 1, plain_doc 2])
            unprepared_target ''logs'')
     = \<lparr>processed = 0, updated = 0, failed = 0\<rparr>
   \<and> indices_exists (mem_store [plain_doc 1, plain_doc 2]) ''logs'' = Inr True
   \<and> count_docs (mem_store [plain_doc 1, plain_doc 2]) ''logs'' = Inr 2
   \<and> snd (replicate_index fixture_lib (mem_store [plain_doc 1, plain_doc 2]) flaky_target
            ''a'' None)
     = Inl TransportError"
  by (simp add: replicate_index_def replicate_index_with_def replicate_single_index_def
      unprepared_target_def fresh_target_def flaky_target_def mem_store_def resolve_target_def
      on_error_def stats0_def Let_def)

text \<open>
  C2. Whatever the clusters answer, the only refresh setting \<^verbatim>\<open>replicate_index\<close> sends
  to the target is the disabling one: the restoring \<^verbatim>\<open>put_settings\<close> stands at the end of
  the \<^verbatim>\<open>try\<close> body, behind the early returns and behind the statement that raises, and
  no \<^verbatim>\<open>finally\<close> clause runs it.
\<close>

theorem refresh_left_disabled:
  "refresh_settings (fst (replicate_index lib source_es target_es index topt))
     = [(resolve_target topt index, ''-1'')]"
  using replicate_index_calls [of lib source_es target_es index topt] by auto

section \<open>Properties of the loader\<close>

lemma process_docs_eq:
  "process_docs lib t acc st ds =
     (acc @ batch_actions lib t ds, st\<lparr>failed := failed st + int (batch_failures lib t ds)\<rparr>)"
  by (induction ds arbitrary: acc st)
    (auto simp: batch_actions_def batch_failures_def split: sum.splits)

lemma process_batch_eq:
  "process_batch lib t st batch =
     (batch_actions lib t batch, st\<lparr>failed := failed st + int (batch_failures lib t batch)\<rparr>)"
  by (simp add: process_batch_def process_docs_eq)

lemma dispatch_eq:
  "dispatch lib t (st, futures, last_actions) batches =
     (st\<lparr>failed := failed st + int (sum_list (map (batch_failures lib t) batches))\<rparr>,
      futures @ map bulk_call (filter (\<lambda>a. a \<noteq> []) (map (batch_actions lib t) batches)),
      if batches = [] then last_actions else batch_actions lib t (last batches))"
  by (induction batches arbitrary: st futures last_actions) (auto simp: process_batch_eq)

lemma batch_actions_append:
  "batch_actions lib t (xs @ ys) = batch_actions lib t xs @ batch_actions lib t ys"
  by (simp add: batch_actions_def)

lemma batch_failures_append:
  "batch_failures lib t (xs @ ys) = batch_failures lib t xs + batch_failures lib t ys"
  by (simp add: batch_failures_def)





text \<open>The whole of \<^verbatim>\<open>replicate_index\<close> on that batch, were \<^verbatim>\<open>batch_iterator\<close> bound to
  \<open>one_batch\<close>.\<close>

lemma loop_example:
  "replicate_index_with (Some one_batch) fixture_lib
     (mem_store [plain_doc 1, broken_doc ''x'', plain_doc 2]) (mem_store []) ''logs'' None
   = ([PutSettings ''logs'' ''-1'', Scan (scan_call ''logs''),
       Bulk (bulk_call (batch_actions fixture_lib ''logs'' [plain_doc 1, plain_doc 2])),
       PutSettings ''logs'' ''1s''],
      Inr \<lparr>processed = 2, updated = 2, failed = 1\<rparr>)"
  by (simp add: replicate_index_with_def scan_and_load_def mem_store_def one_batch_def
      resolve_target_def ensure_target_def dispatch_eq process_doc_def broken_doc_def
      plain_doc_def generate_doc_hash_def fixture_lib_def batch_actions_def batch_failures_def
      stats0_def bulk_call_def Let_def)

section \<open>Properties of the coordinator\<close>

lemma replicate_pass_eq:
  "snd (replicate_pass lib s t (calls, tot) indices)
     = foldl add_stats tot (map (\<lambda>i. snd (replicate_single_index lib s t i)) indices)"
  by (induction indices arbitrary: calls tot) (auto split: prod.splits)

text \<open>
  C7. When the replication of one collection of a pass raises, the error is caught in
  \<^verbatim>\<open>_replicate_single_index\<close> and becomes the statistics \<open>processed = 0, updated = 0,
  failed = 1\<close> of that collection; the pass adds them to the totals and goes on: the
  collections after it are replicated and added as well.
\<close>

theorem collection_failure_contained:
  assumes "snd (replicate_index lib source_es target_es index None) = Inl e"
  shows "snd (replicate_single_index lib source_es target_es index)
           = \<lparr>processed = 0, updated = 0, failed = 1\<rparr>
       \<and> snd (replicate_pass lib source_es target_es (calls, tot) (before @ index # after))
           = foldl add_stats
               (add_stats
                  (foldl add_stats tot
                     (map (\<lambda>i. snd (replicate_single_index lib source_es target_es i)) before))
                  \<lparr>processed = 0, updated = 0, failed = 1\<rparr>)
               (map (\<lambda>i. snd (replicate_single_index lib source_es target_es i)) after)"
  using single_index_failed [OF assms] by (simp add: replicate_pass_eq)


theorem collection_failure_contained_witness:
  "snd (replicate_index fixture_lib (mem_store []) flaky_target ''a'' None) = Inl TransportError
   \<and> snd (replicate_single_index fixture_lib (mem_store []) flaky_target ''a'')
     = \<lparr>processed = 0, updated = 0, failed = 1\<rparr>
   \<and> snd (replicate_pass fixture_lib (mem_store []) flaky_target ([], total_stats0) [''a'', ''b''])
     = \<lparr>total_processed = 0, total_updated = 0, total_failed = 1, total_checked = 0,
        total_mismatches = 0\<rparr>"
proof -
  have a: "snd (replicate_index fixture_lib (mem_store []) flaky_target ''a'' None)
             = Inl TransportError"
    by (simp add: replicate_index_def replicate_index_with_def flaky_target_def mem_store_def
        resolve_target_def on_error_def Let_def)
  have b: "snd (replicate_index fixture_lib (mem_store []) flaky_target ''b'' None) = Inr stats0"
    by (simp add: replicate_index_def replicate_index_with_def flaky_target_def mem_store_def
        resolve_target_def ensure_target_def Let_def)
  show ?thesis
    using collection_failure_contained [OF a, of "[]" total_stats0 "[]" "[''b'']"]
      single_index_returned [OF b]
    by (simp add: a add_stats_def total_stats0_def stats0_def)
qed

section \<open>Properties of the extractor\<close>

lemma scan_requests_append: "scan_requests (xs @ ys) = scan_requests xs @ scan_requests ys"
  by (induction xs rule: scan_requests.induct) auto

lemma scan_requests_bulks: "scan_requests (map Bulk futures) = []"
  by (induction futures) auto

lemma scan_and_load_scans:
  "scan_requests (fst (scan_and_load iter lib s t i ti st)) = []
   \<or> scan_requests (fst (scan_and_load iter lib s t i ti st)) = [scan_call i]"
  by (auto simp: scan_and_load_def Let_def scan_requests_append scan_requests_bulks
      split: option.splits prod.splits sum.splits)

lemma replicate_index_with_scans:
  "scan_requests (fst (replicate_index_with iter lib s t i topt)) = []
   \<or> scan_requests (fst (replicate_index_with iter lib s t i topt)) = [scan_call i]"
  using scan_and_load_scans [of iter lib s t i "resolve_target topt i" stats0]
  by (auto simp: replicate_index_with_def Let_def ensure_target_def scan_requests_append
      split: sum.splits prod.splits if_splits)

text \<open>
  The scans in the call log of \<^verbatim>\<open>replicate_index\<close>: with \<^verbatim>\<open>batch_iterator\<close> unbound,
  as in the program, there is none, since \<^verbatim>\<open>NameError\<close> is raised before
  \<^verbatim>\<open>helpers.scan\<close> is evaluated. The call as written (lines 352--360) passes
  \<^verbatim>\<open>preserve_order=True\<close>.
\<close>

lemma replicate_index_opens_no_scan:
  "scan_requests (fst (replicate_index lib source_es target_es index topt)) = []"
  using replicate_index_calls [of lib source_es target_es index topt] by auto

lemma scan_call_keeps_order: "preserve_order (scan_call source_index)"
  by (simp add: scan_call_def)

section \<open>Properties of the checkpoint\<close>

text \<open>
  C4. On a target cluster without the metadata index, \<^verbatim>\<open>_init_last_sync_time\<close> leaves
  \<^verbatim>\<open>last_sync_time\<close> at \<^verbatim>\<open>None\<close>: \<^verbatim>\<open>indices.exists\<close> returns false, the body of the
  \<^verbatim>\<open>if\<close> is skipped, nothing raises, and the handler that sets the 24-hour default
  does not run.
\<close>

theorem absent_meta_index_leaves_none:
  "init_last_sync_time lib fresh_target now = None"
  by (simp add: init_last_sync_time_def fresh_target_def mem_store_def)

text \<open>The cases of \<^verbatim>\<open>_init_last_sync_time\<close>: index absent, record absent (or any
  error of the read), timestamp unreadable, timestamp read.\<close>

lemma last_sync_no_index:
  "indices_exists target_es meta_index = Inr False \<Longrightarrow>
   init_last_sync_time lib target_es now = None"
  by (simp add: init_last_sync_time_def)

lemma last_sync_no_record:
  "indices_exists target_es meta_index = Inr True \<Longrightarrow>
   get_doc target_es meta_index ''last_sync'' = Inl e \<Longrightarrow>
   init_last_sync_time lib target_es now = Some (now - one_day)"
  by (simp add: init_last_sync_time_def)

lemma last_sync_unreadable:
  "indices_exists target_es meta_index = Inr True \<Longrightarrow>
   get_doc target_es meta_index ''last_sync'' = Inr \<lparr>doc_id = ''last_sync'', doc_source = Some d\<rparr> \<Longrightarrow>
   map_of d ''timestamp'' = Some ts \<Longrightarrow> fromisoformat lib ts = Inl e \<Longrightarrow>
   init_last_sync_time lib target_es now = Some (now - one_day)"
  by (simp add: init_last_sync_time_def)

lemma last_sync_persisted:
  "indices_exists target_es meta_index = Inr True \<Longrightarrow>
   get_doc target_es meta_index ''last_sync'' = Inr \<lparr>doc_id = ''last_sync'', doc_source = Some d\<rparr> \<Longrightarrow>
   map_of d ''timestamp'' = Some ts \<Longrightarrow> fromisoformat lib ts = Inr t \<Longrightarrow>
   init_last_sync_time lib target_es now = Some t"
  by (simp add: init_last_sync_time_def)

section \<open>Further scenarios\<close>

text \<open>
  Were \<^verbatim>\<open>batch_iterator\<close> bound, an error raised by the cursor in mid-scan would leave
  the refresh interval disabled as well: the bulk request of the batch read so far is
  submitted, the error is raised again, and no restoring \<^verbatim>\<open>put_settings\<close> is sent.
\<close>

lemma restore_skipped_on_scan_error:
  "replicate_index_with (Some one_batch) fixture_lib
     (failing_scan_store [plain_doc 1]) (mem_store []) ''logs'' None
   = ([PutSettings ''logs'' ''-1'', Scan (scan_call ''logs''),
       Bulk (bulk_call (batch_actions fixture_lib ''logs'' [plain_doc 1]))],
      Inl TransportError)"
  by (simp add: replicate_index_with_def scan_and_load_def failing_scan_store_def mem_store_def
      one_batch_def resolve_target_def ensure_target_def dispatch_eq process_doc_def
      plain_doc_def generate_doc_hash_def fixture_lib_def batch_actions_def batch_failures_def
      stats0_def bulk_call_def on_error_def Let_def)

text \<open>
  Verification of a replica. The source documents carry no fingerprint field; the target
  holds, for each of them, the document the loader writes (the fields and the fingerprint).
  Every sampled id then counts as a mismatch, since the source's sample holds no
  fingerprint where the target's holds one.
\<close>

lemma map_of_keyed:
  "distinct (map f xs) \<Longrightarrow> x \<in> set xs \<Longrightarrow> map_of (map (\<lambda>x. (f x, g x)) xs) (f x) = Some (g x)"
  by (induction xs) (auto simp: rev_image_eqI)

lemma all_mismatch:
  assumes "distinct (map f xs)" and "\<forall>x\<in>set xs. g x \<noteq> h x"
  shows "filter (sample_mismatch (map (\<lambda>x. (f x, g x)) xs) (map (\<lambda>x. (f x, h x)) xs))
           (map f xs) = map f xs"
  using assms by (auto simp: filter_id_conv sample_mismatch_def map_of_keyed)

lemma replica_docs:
  assumes "\<forall>d\<in>set docs. \<exists>src. doc_source d = Some src \<and> \<not> isl (generate_doc_hash lib src)"
  shows "map doc_id (map stored_doc (batch_actions lib t docs)) = map doc_id docs
       \<and> (\<forall>d\<in>set (map stored_doc (batch_actions lib t docs)). doc_source d \<noteq> None)
       \<and> stored_fingerprints (map stored_doc (batch_actions lib t docs))
           = map (\<lambda>d. (doc_id d, JStr (projr (generate_doc_hash lib (the (doc_source d)))))) docs"
  using assms
proof (induction docs)
  case Nil
  then show ?case by (simp add: batch_actions_def stored_fingerprints_def)
next
  case (Cons d docs)
  then obtain src h where d: "doc_source d = Some src" "generate_doc_hash lib src = Inr h"
    by (metis list.set_intros(1) sum.collapse(2))
  have "batch_actions lib t (d # docs) =
      \<lparr>op_type = ''index'', action_index = t, action_id = doc_id d,
        action_source = AList.update checksum_field (JStr h) src\<rparr> # batch_actions lib t docs"
    by (simp add: batch_actions_def process_doc_def d)
  with Cons show ?case
    by (simp add: stored_doc_def stored_fingerprints_def d dict_get_def update_conv')
qed

lemma replica_all_flagged:
  assumes "distinct (map doc_id docs)" and "docs \<noteq> []" and "length docs \<le> 1000"
    and "\<forall>d\<in>set docs. \<exists>src. doc_source d = Some src \<and> map_of src checksum_field = None
           \<and> \<not> isl (generate_doc_hash lib src)"
  shows "verify_replication (mem_store docs)
           (mem_store (map stored_doc (batch_actions lib t docs))) [index]
         = \<lparr>checked = int (length docs), mismatches = int (length docs),
            missing_indices = 0, count_mismatches = 0\<rparr>"
proof -
  let ?t = "map stored_doc (batch_actions lib t docs)"
  let ?h = "\<lambda>d. JStr (projr (generate_doc_hash lib (the (doc_source d))))"
  have r: "map doc_id ?t = map doc_id docs" "\<forall>d\<in>set ?t. doc_source d \<noteq> None"
    "stored_fingerprints ?t = map (\<lambda>d. (doc_id d, ?h d)) docs"
    using replica_docs [of docs lib t] assms(4) by blast+
  have len: "length ?t = length docs" using r(1) by (metis length_map)
  have s: "stored_fingerprints docs = map (\<lambda>d. (doc_id d, JNull)) docs"
    using assms(4) by (auto simp: stored_fingerprints_def dict_get_def)
  have "\<forall>d\<in>set docs. doc_source d \<noteq> None" using assms(4) by auto
  moreover have "distinct (map doc_id ?t)" using assms(1) by (simp only: r(1))
  ultimately have "verify_replication (mem_store docs) (mem_store ?t) [index] =
      compare_samples (stored_fingerprints docs) (stored_fingerprints (take (length docs) ?t))
        (count_check (int (length docs)) (int (length ?t)) verify_stats0)"
    using assms(1,2,3) r(2) by (intro verify_mem_store) auto
  moreover have "compare_samples (map (\<lambda>d. (doc_id d, JNull)) docs)
                    (map (\<lambda>d. (doc_id d, ?h d)) docs) st
                  = st\<lparr>checked := checked st + int (length docs),
                       mismatches := mismatches st + int (length docs)\<rparr>" for st
  proof -
    let ?S = "map (\<lambda>d. (doc_id d, JNull)) docs" and ?T = "map (\<lambda>d. (doc_id d, ?h d)) docs"
    have ids: "map fst ?S = map doc_id docs" by (simp add: comp_def)
    have "filter (sample_mismatch ?S ?T) (map doc_id docs) = map doc_id docs"
      using assms(1) by (intro all_mismatch) auto
    then have "length (filter (sample_mismatch ?S ?T) (map fst ?S)) = length docs"
      by (simp only: ids length_map)
    then show ?thesis by (simp only: compare_samples_eq length_map)
  qed
  ultimately show ?thesis
    using len by (simp add: r(3) s count_check_def verify_stats0_def)
qed

lemma replica_of_drift_source_flagged:
  "verify_replication (mem_store drift_source)
     (mem_store (map stored_doc (batch_actions fixture_lib ''logs'' drift_source))) [''logs'']
   = \<lparr>checked = 100, mismatches = 100, missing_indices = 0, count_mismatches = 0\<rparr>"
proof -
  have "\<forall>d\<in>set drift_source. \<exists>src. doc_source d = Some src \<and> map_of src checksum_field = None
           \<and> \<not> isl (generate_doc_hash fixture_lib src)"
    by (auto simp: drift_source_def plain_doc_def checksum_field_def generate_doc_hash_def
        fixture_lib_def)
  moreover have "length drift_source = 100" "drift_source \<noteq> []"
    by (simp_all add: drift_source_def)
  ultimately show ?thesis
    using replica_all_flagged [of drift_source fixture_lib "''logs''" "''logs''"] drift_source_ids
    by auto
qed

end
